theory Spec2Isabelle
  imports Main
begin

section \<open>Python values, errors and string operations\<close>

text \<open>
  The program is Python 2 (\<^verbatim>\<open>lambda (weight, mime, glob): ...\<close> in
  \<^verbatim>\<open>GlobsFile.match\<close>). Its \<^verbatim>\<open>str\<close> is a byte string, modelled by
  \<^typ>\<open>string\<close>. Every exception the code can raise is a value of \<open>py_error\<close>, and a
  function that can raise returns \<open>py_error + 'a\<close>, with \<open>Inl\<close> for the exception.
  \<open>RegexError\<close> is \<^verbatim>\<open>sre_constants.error\<close>, raised by \<^verbatim>\<open>re.compile\<close> inside
  \<^verbatim>\<open>fnmatch\<close>.
\<close>

datatype py_error =
  ValueError | IndexError | KeyError | TypeError | NameError | AttributeError | RegexError

text \<open>\<^verbatim>\<open>s.partition(sep)\<close> for a one-character separator: the text before the first
  separator, the separator when it was found, and the text after it.\<close>

fun str_partition :: "char \<Rightarrow> string \<Rightarrow> string \<times> string \<times> string" where
  "str_partition sep [] = ([], [], [])"
| "str_partition sep (x # xs) =
     (if x = sep then ([], [sep], xs)
      else (case str_partition sep xs of (a, s, b) \<Rightarrow> (x # a, s, b)))"

text \<open>\<^verbatim>\<open>s.split(sep)\<close> for a one-character separator: never an empty list.\<close>

fun str_split :: "char \<Rightarrow> string \<Rightarrow> string list" where
  "str_split sep [] = [[]]"
| "str_split sep (x # xs) =
     (if x = sep then [] # str_split sep xs
      else (case str_split sep xs of [] \<Rightarrow> [[x]] | w # ws \<Rightarrow> (x # w) # ws))"

definition lower_char :: "char \<Rightarrow> char" where
  "lower_char c =
     (case map_of (zip ''ABCDEFGHIJKLMNOPQRSTUVWXYZ'' ''abcdefghijklmnopqrstuvwxyz'') c of
        Some l \<Rightarrow> l
      | None \<Rightarrow> c)"

text \<open>\<^verbatim>\<open>s.lower()\<close> on a byte string: the ASCII letters only.\<close>

definition str_lower :: "string \<Rightarrow> string" where
  "str_lower s = map lower_char s"

text \<open>\<^verbatim>\<open>s.replace(a, b)\<close> for one-character \<open>a\<close> and \<open>b\<close>.\<close>

definition str_replace :: "char \<Rightarrow> char \<Rightarrow> string \<Rightarrow> string" where
  "str_replace a b s = map (\<lambda>c. if c = a then b else c) s"

definition startswith_char :: "char \<Rightarrow> string \<Rightarrow> bool" where
  "startswith_char c s = (case s of [] \<Rightarrow> False | x # _ \<Rightarrow> x = c)"

definition endswith_char :: "char \<Rightarrow> string \<Rightarrow> bool" where
  "endswith_char c s = (case rev s of [] \<Rightarrow> False | x # _ \<Rightarrow> x = c)"

definition newline :: char where
  "newline = CHR 0x0A"

text \<open>The body of \<^verbatim>\<open>if line.endswith("\n"): line = line[:-1]\<close>.\<close>

definition chomp :: "string \<Rightarrow> string" where
  "chomp line = (if endswith_char newline line then butlast line else line)"

subsection \<open>The builtin \<^verbatim>\<open>int\<close> on a string\<close>

text \<open>
  \<^verbatim>\<open>int(s)\<close> in base 10: white space around the literal is skipped, one sign is
  allowed, and at least one decimal digit must follow; anything else raises
  \<^verbatim>\<open>ValueError\<close>. Python 2 returns a \<^verbatim>\<open>long\<close> where the value does not fit a
  machine word, so the result is an unbounded \<^typ>\<open>int\<close>.
\<close>

definition is_space :: "char \<Rightarrow> bool" where
  "is_space c = (c \<in> set [CHR '' '', CHR 0x09, CHR 0x0A, CHR 0x0B, CHR 0x0C, CHR 0x0D])"

definition digit_val :: "char \<Rightarrow> nat option" where
  "digit_val c = map_of (zip ''0123456789'' [0, 1, 2, 3, 4, 5, 6, 7, 8, 9]) c"

fun digits_val :: "nat \<Rightarrow> string \<Rightarrow> nat option" where
  "digits_val acc [] = Some acc"
| "digits_val acc (c # cs) =
     (case digit_val c of None \<Rightarrow> None | Some d \<Rightarrow> digits_val (10 * acc + d) cs)"

definition py_int :: "string \<Rightarrow> py_error + int" where
  "py_int s =
     (let t = rev (dropWhile is_space (rev (dropWhile is_space s)));
          neg = startswith_char (CHR ''-'') t;
          ds = (if neg then tl t else if startswith_char (CHR ''+'') t then tl t else t)
      in if ds = [] then Inl ValueError
         else (case digits_val 0 ds of
                 None \<Rightarrow> Inl ValueError
               | Some n \<Rightarrow> Inr (if neg then - int n else int n)))"

section \<open>The library function \<^verbatim>\<open>fnmatch\<close>\<close>

text \<open>
  \<^verbatim>\<open>fnmatch.fnmatch(name, pat)\<close> on a POSIX host (\<^verbatim>\<open>os.path.normcase\<close> is the
  identity there, and the file is the Linux backend): \<^verbatim>\<open>fnmatch.translate\<close> turns the
  pattern into a regular expression, \<^verbatim>\<open>re.compile\<close> compiles it, and the name must
  match it from its first to its last character.

  \<^verbatim>\<open>translate\<close> reads the pattern from left to right: \<^verbatim>\<open>*\<close> becomes \<^verbatim>\<open>.*\<close>,
  \<^verbatim>\<open>?\<close> becomes \<^verbatim>\<open>.\<close>, and after \<^verbatim>\<open>[\<close> it looks for the closing bracket, stepping
  over a leading \<^verbatim>\<open>!\<close> and then over a leading \<^verbatim>\<open>]\<close>. With no closing bracket the
  \<^verbatim>\<open>[\<close> is an ordinary character; otherwise the text between the brackets is a
  character set. Every other character stands for itself.
\<close>

datatype glob_item = AnyRun | AnyChar | Literal char | Bracket string

definition bracket_close :: "string \<Rightarrow> nat option" where
  "bracket_close cs =
     (let j0 = (if startswith_char (CHR ''!'') cs then 1 else 0);
          j1 = (if j0 < length cs \<and> cs ! j0 = CHR '']'' then j0 + 1 else j0);
          j2 = j1 + length (takeWhile (\<lambda>c. c \<noteq> CHR '']'') (drop j1 cs))
      in if j2 < length cs then Some j2 else None)"

fun translate :: "string \<Rightarrow> glob_item list" where
  "translate [] = []"
| "translate (c # cs) =
     (if c = CHR ''*'' then AnyRun # translate cs
      else if c = CHR ''?'' then AnyChar # translate cs
      else if c = CHR ''['' then
        (case bracket_close cs of
           None \<Rightarrow> Literal c # translate cs
         | Some j \<Rightarrow> Bracket (take j cs) # translate (drop (Suc j) cs))
      else Literal c # translate cs)"

text \<open>
  The character set. \<^verbatim>\<open>translate\<close> doubles every backslash of the text between the
  brackets, turns a leading \<^verbatim>\<open>!\<close> into the negation \<^verbatim>\<open>^\<close> and escapes a leading
  \<^verbatim>\<open>^\<close>, so \<^verbatim>\<open>re\<close> reads every character of the text as itself. A character
  followed by \<^verbatim>\<open>-\<close> and a further character is a range, and a range whose upper end
  is below its lower end makes \<^verbatim>\<open>re.compile\<close> raise (bad character range); a
  \<^verbatim>\<open>-\<close> at the end of the set is an ordinary character.
\<close>

fun set_ranges :: "string \<Rightarrow> py_error + (char \<times> char) list" where
  "set_ranges [] = Inr []"
| "set_ranges [c] = Inr [(c, c)]"
| "set_ranges (c # m # rest) =
     (if m = CHR ''-'' then
        (case rest of
           [] \<Rightarrow> Inr [(c, c), (m, m)]
         | d # rest' \<Rightarrow>
             if (of_char d :: nat) < of_char c then Inl RegexError
             else (case set_ranges rest' of
                     Inl e \<Rightarrow> Inl e
                   | Inr rs \<Rightarrow> Inr ((c, d) # rs)))
      else (case set_ranges (m # rest) of
              Inl e \<Rightarrow> Inl e
            | Inr rs \<Rightarrow> Inr ((c, c) # rs)))"

datatype regex_item = RStar | RDot | RLit char | RIn bool "(char \<times> char) list"

definition compile_item :: "glob_item \<Rightarrow> py_error + regex_item" where
  "compile_item it =
     (case it of
        AnyRun \<Rightarrow> Inr RStar
      | AnyChar \<Rightarrow> Inr RDot
      | Literal c \<Rightarrow> Inr (RLit c)
      | Bracket stuff \<Rightarrow>
          (let neg = startswith_char (CHR ''!'') stuff;
               body = (if neg then tl stuff else stuff)
           in case set_ranges body of
                Inl e \<Rightarrow> Inl e
              | Inr rs \<Rightarrow> Inr (RIn neg rs)))"

fun compile_items :: "glob_item list \<Rightarrow> py_error + regex_item list" where
  "compile_items [] = Inr []"
| "compile_items (it # its) =
     (case compile_item it of
        Inl e \<Rightarrow> Inl e
      | Inr r \<Rightarrow> (case compile_items its of Inl e \<Rightarrow> Inl e | Inr rs \<Rightarrow> Inr (r # rs)))"

definition in_ranges :: "(char \<times> char) list \<Rightarrow> char \<Rightarrow> bool" where
  "in_ranges rs x =
     list_ex (\<lambda>(lo, hi). (of_char lo :: nat) \<le> of_char x \<and> (of_char x :: nat) \<le> of_char hi) rs"

text \<open>Matching the whole name (the expression ends with \<^verbatim>\<open>\Z\<close>, and \<^verbatim>\<open>.\<close> matches
  every character, the flag \<^verbatim>\<open>s\<close> being set).\<close>

fun re_match :: "regex_item list \<Rightarrow> string \<Rightarrow> bool" where
  "re_match [] s = (s = [])"
| "re_match (RStar # rs) [] = re_match rs []"
| "re_match (RStar # rs) (x # xs) = (re_match rs (x # xs) \<or> re_match (RStar # rs) xs)"
| "re_match (RDot # rs) [] = False"
| "re_match (RDot # rs) (x # xs) = re_match rs xs"
| "re_match (RLit c # rs) [] = False"
| "re_match (RLit c # rs) (x # xs) = (x = c \<and> re_match rs xs)"
| "re_match (RIn neg cls # rs) [] = False"
| "re_match (RIn neg cls # rs) (x # xs) = (in_ranges cls x \<noteq> neg \<and> re_match rs xs)"

definition fnmatch :: "string \<Rightarrow> string \<Rightarrow> py_error + bool" where
  "fnmatch name pat =
     (case compile_items (translate pat) of
        Inl e \<Rightarrow> Inl e
      | Inr re \<Rightarrow> Inr (re_match re name))"

text \<open>Whether \<^verbatim>\<open>re.compile\<close> accepts the expression \<^verbatim>\<open>translate\<close> makes of a
  pattern, that is, whether \<^verbatim>\<open>fnmatch\<close> returns on it rather than raises.\<close>

definition glob_compiles :: "string \<Rightarrow> bool" where
  "glob_compiles pat =
     (case compile_items (translate pat) of Inl e \<Rightarrow> False | Inr re \<Rightarrow> True)"

section \<open>The glob index: \<^verbatim>\<open>GlobsFile\<close>\<close>

text \<open>
  A rule is the tuple \<^verbatim>\<open>(int(weight), mime, glob, flags)\<close> that \<^verbatim>\<open>parse\<close> appends
  to \<^verbatim>\<open>self.__matches\<close>; \<^verbatim>\<open>self.__literals\<close> is a dictionary from a glob with no
  wildcard character to a position in that list.
\<close>

type_synonym glob_rule = "int \<times> string \<times> string \<times> string list"

definition rule_weight :: "glob_rule \<Rightarrow> int" where
  "rule_weight r = fst r"

definition rule_mime :: "glob_rule \<Rightarrow> string" where
  "rule_mime r = fst (snd r)"

definition rule_glob :: "glob_rule \<Rightarrow> string" where
  "rule_glob r = fst (snd (snd r))"

definition rule_flags :: "glob_rule \<Rightarrow> string list" where
  "rule_flags r = snd (snd (snd r))"

record GlobsFile =
  matches :: "glob_rule list"
  literals :: "string \<rightharpoonup> nat"

definition GlobsFile_init :: GlobsFile where
  "GlobsFile_init = \<lparr>matches = [], literals = Map.empty\<rparr>"

text \<open>The test \<^verbatim>\<open>"*" not in glob and "?" not in glob and "[" not in glob\<close>.\<close>

definition no_wildcard :: "string \<Rightarrow> bool" where
  "no_wildcard glob =
     (CHR ''*'' \<notin> set glob \<and> CHR ''?'' \<notin> set glob \<and> CHR ''['' \<notin> set glob)"

text \<open>The four \<^verbatim>\<open>partition(":")\<close> calls and the split of the flags.\<close>

definition line_fields :: "string \<Rightarrow> string \<times> string \<times> string \<times> string list" where
  "line_fields line =
     (case str_partition (CHR '':'') line of (weight, _, l1) \<Rightarrow>
      case str_partition (CHR '':'') l1 of (mime, _, l2) \<Rightarrow>
      case str_partition (CHR '':'') l2 of (glob, _, l3) \<Rightarrow>
      case str_partition (CHR '':'') l3 of (flags, _, l4) \<Rightarrow>
        (weight, mime, glob, if flags = [] then [] else str_split (CHR '','') flags))"

text \<open>
  One turn of the loop of \<^verbatim>\<open>GlobsFile.parse\<close>. The rule is appended first and the
  literal index then stores \<^verbatim>\<open>len(self.__matches)\<close>, the length after the append.
\<close>

definition GlobsFile_parse_line :: "GlobsFile \<Rightarrow> string \<Rightarrow> py_error + GlobsFile" where
  "GlobsFile_parse_line g line =
     (if startswith_char (CHR ''#'') line then Inr g
      else
        (case line_fields (chomp line) of (weight, mime, glob, flags) \<Rightarrow>
           (case py_int weight of
              Inl e \<Rightarrow> Inl e
            | Inr w \<Rightarrow>
                (let ms = matches g @ [(w, mime, glob, flags)]
                 in Inr \<lparr>matches = ms,
                         literals = (if no_wildcard glob then (literals g)(glob \<mapsto> length ms)
                                     else literals g)\<rparr>))))"

text \<open>\<^verbatim>\<open>GlobsFile.parse\<close> on the lines the file yields (each with its line break);
  an exception ends the load.\<close>

fun GlobsFile_parse :: "GlobsFile \<Rightarrow> string list \<Rightarrow> py_error + GlobsFile" where
  "GlobsFile_parse g [] = Inr g"
| "GlobsFile_parse g (line # rest) =
     (case GlobsFile_parse_line g line of
        Inl e \<Rightarrow> Inl e
      | Inr g' \<Rightarrow> GlobsFile_parse g' rest)"

subsection \<open>\<^verbatim>\<open>GlobsFile.match\<close>\<close>

text \<open>
  The test of one rule in the scan:
  \<^verbatim>\<open>if fnmatch(name, glob): ... elif "cs" not in flags and fnmatch(name.lower(), glob): ...\<close>
\<close>

definition rule_hit :: "string \<Rightarrow> glob_rule \<Rightarrow> py_error + bool" where
  "rule_hit name r =
     (case fnmatch name (rule_glob r) of
        Inl e \<Rightarrow> Inl e
      | Inr b \<Rightarrow>
          if b then Inr True
          else if ''cs'' \<notin> set (rule_flags r) then fnmatch (str_lower name) (rule_glob r)
          else Inr False)"

type_synonym candidate = "int \<times> string \<times> string"

definition candidate_of :: "glob_rule \<Rightarrow> candidate" where
  "candidate_of r = (rule_weight r, rule_mime r, rule_glob r)"

text \<open>The loop that fills the local list \<^verbatim>\<open>matches\<close>, in the order of the rules.\<close>

fun scan :: "string \<Rightarrow> glob_rule list \<Rightarrow> py_error + candidate list" where
  "scan name [] = Inr []"
| "scan name (r # rs) =
     (case rule_hit name r of
        Inl e \<Rightarrow> Inl e
      | Inr b \<Rightarrow>
          (case scan name rs of
             Inl e \<Rightarrow> Inl e
           | Inr ms \<Rightarrow> Inr (if b then candidate_of r # ms else ms)))"

text \<open>The key \<^verbatim>\<open>(weight, len(glob))\<close> and Python's order on such tuples.\<close>

definition match_key :: "candidate \<Rightarrow> int \<times> nat" where
  "match_key c = (fst c, length (snd (snd c)))"

definition key_less :: "int \<times> nat \<Rightarrow> int \<times> nat \<Rightarrow> bool" where
  "key_less a b = (fst a < fst b \<or> (fst a = fst b \<and> snd a < snd b))"

text \<open>\<^verbatim>\<open>max(matches, key=...)\<close>: the element kept is replaced only by one whose key
  is strictly greater, and an empty list raises \<^verbatim>\<open>ValueError\<close>.\<close>

fun max_from :: "candidate \<Rightarrow> candidate list \<Rightarrow> candidate" where
  "max_from best [] = best"
| "max_from best (x # xs) =
     max_from (if key_less (match_key best) (match_key x) then x else best) xs"

definition py_max :: "candidate list \<Rightarrow> py_error + candidate" where
  "py_max ms = (case ms of [] \<Rightarrow> Inl ValueError | m # rest \<Rightarrow> Inr (max_from m rest))"

definition GlobsFile_match :: "GlobsFile \<Rightarrow> string \<Rightarrow> py_error + string" where
  "GlobsFile_match g name =
     (case literals g name of
        Some i \<Rightarrow>
          (if i < length (matches g) then Inr (rule_mime (matches g ! i))
           else Inl IndexError)
      | None \<Rightarrow>
          (case scan name (matches g) of
             Inl e \<Rightarrow> Inl e
           | Inr ms \<Rightarrow>
               if ms = [] then Inr []
               else (case py_max ms of
                       Inl e \<Rightarrow> Inl e
                     | Inr c \<Rightarrow> Inr (fst (snd c)))))"

text \<open>The module's singleton: \<^verbatim>\<open>GLOBS = GlobsFile()\<close>, one \<^verbatim>\<open>GLOBS.parse(f)\<close>,
  then \<^verbatim>\<open>GLOBS.match(name)\<close>.\<close>

definition load_and_match :: "string list \<Rightarrow> string \<Rightarrow> py_error + string" where
  "load_and_match lines name =
     (case GlobsFile_parse GlobsFile_init lines of
        Inl e \<Rightarrow> Inl e
      | Inr g \<Rightarrow> GlobsFile_match g name)"

section \<open>The icon table: \<^verbatim>\<open>IconsFile\<close>\<close>

record IconsFile =
  icons :: "string \<rightharpoonup> string"

definition IconsFile_init :: IconsFile where
  "IconsFile_init = \<lparr>icons = Map.empty\<rparr>"

text \<open>\<^verbatim>\<open>mime, icon = line.split(":")\<close> raises \<^verbatim>\<open>ValueError\<close> unless the line has
  exactly one colon.\<close>

definition IconsFile_parse_line :: "IconsFile \<Rightarrow> string \<Rightarrow> py_error + IconsFile" where
  "IconsFile_parse_line t line =
     (case str_split (CHR '':'') (chomp line) of
        [mime, icon] \<Rightarrow> Inr \<lparr>icons = (icons t)(mime \<mapsto> icon)\<rparr>
      | _ \<Rightarrow> Inl ValueError)"

fun IconsFile_parse :: "IconsFile \<Rightarrow> string list \<Rightarrow> py_error + IconsFile" where
  "IconsFile_parse t [] = Inr t"
| "IconsFile_parse t (line # rest) =
     (case IconsFile_parse_line t line of
        Inl e \<Rightarrow> Inl e
      | Inr t' \<Rightarrow> IconsFile_parse t' rest)"

definition IconsFile_get :: "IconsFile \<Rightarrow> string \<Rightarrow> string option" where
  "IconsFile_get t name = icons t name"

section \<open>The resolved type: \<^verbatim>\<open>BaseMime\<close> and \<^verbatim>\<open>MimeType\<close>\<close>

text \<open>
  The values an attribute of the instance can hold, and the operations the methods
  apply to them, each with the exception Python raises on a value of the wrong type.
\<close>

datatype pyval = PyNone | PyDict "(string \<times> string) list" | PyList "string list"

text \<open>\<^verbatim>\<open>key in v\<close>\<close>

definition py_contains :: "pyval \<Rightarrow> string \<Rightarrow> py_error + bool" where
  "py_contains v key =
     (case v of
        PyNone \<Rightarrow> Inl TypeError
      | PyDict d \<Rightarrow> Inr (map_of d key \<noteq> None)
      | PyList l \<Rightarrow> Inr (key \<in> set l))"

text \<open>\<^verbatim>\<open>v[key]\<close> for a string key\<close>

definition py_getitem :: "pyval \<Rightarrow> string \<Rightarrow> py_error + string" where
  "py_getitem v key =
     (case v of
        PyNone \<Rightarrow> Inl TypeError
      | PyDict d \<Rightarrow> (case map_of d key of None \<Rightarrow> Inl KeyError | Some x \<Rightarrow> Inr x)
      | PyList l \<Rightarrow> Inl TypeError)"

text \<open>\<^verbatim>\<open>v[key] = x\<close> for a string key\<close>

definition py_setitem :: "pyval \<Rightarrow> string \<Rightarrow> string \<Rightarrow> py_error + pyval" where
  "py_setitem v key x =
     (case v of
        PyNone \<Rightarrow> Inl TypeError
      | PyDict d \<Rightarrow> Inr (PyDict ((key, x) # filter (\<lambda>kv. fst kv \<noteq> key) d))
      | PyList l \<Rightarrow> Inl TypeError)"

text \<open>\<^verbatim>\<open>v.append(x)\<close>\<close>

definition py_append :: "pyval \<Rightarrow> string \<Rightarrow> py_error + pyval" where
  "py_append v x =
     (case v of
        PyNone \<Rightarrow> Inl AttributeError
      | PyDict d \<Rightarrow> Inl AttributeError
      | PyList l \<Rightarrow> Inr (PyList (l @ [x])))"

text \<open>The truth value of \<^verbatim>\<open>v\<close>, as \<^verbatim>\<open>not v\<close> reads it.\<close>

definition py_truth :: "pyval \<Rightarrow> bool" where
  "py_truth v = (case v of PyNone \<Rightarrow> False | PyDict d \<Rightarrow> d \<noteq> [] | PyList l \<Rightarrow> l \<noteq> [])"

text \<open>
  The instance. \<open>name_field\<close> is \<^verbatim>\<open>self.__name\<close>; \<open>comment_field\<close> and \<open>aliases_field\<close>
  are \<^verbatim>\<open>self._comment\<close> and \<^verbatim>\<open>self._aliases\<close>, \<open>None\<close> while the instance has no such
  attribute. Reading an attribute the instance does not have raises
  \<^verbatim>\<open>AttributeError\<close> (neither class defines \<^verbatim>\<open>_comment\<close> or \<^verbatim>\<open>_aliases\<close>).
\<close>

record MimeType =
  name_field :: string
  comment_field :: "pyval option"
  aliases_field :: "pyval option"

definition get_attr :: "pyval option \<Rightarrow> py_error + pyval" where
  "get_attr a = (case a of None \<Rightarrow> Inl AttributeError | Some v \<Rightarrow> Inr v)"

text \<open>\<^verbatim>\<open>BaseMime.__init__\<close> assigns \<^verbatim>\<open>self.__name = mime\<close> and
  \<^verbatim>\<open>self._comment = None\<close>, and nothing else.\<close>

definition BaseMime_init :: "string \<Rightarrow> MimeType" where
  "BaseMime_init mime =
     \<lparr>name_field = mime, comment_field = Some PyNone, aliases_field = None\<rparr>"

definition BaseMime_name :: "MimeType \<Rightarrow> string" where
  "BaseMime_name self = name_field self"

text \<open>The class attributes of \<^verbatim>\<open>BaseMime\<close>.\<close>

definition DEFAULT_TEXT :: string where
  "DEFAULT_TEXT = ''text/plain''"

definition DEFAULT_BINARY :: string where
  "DEFAULT_BINARY = ''application/octet-stream''"

text \<open>
  A bare name in a method body is looked up among the function's local names, then the
  module's global names, then the builtins; the names of the enclosing class body are
  not in scope. The module \<^verbatim>\<open>base.py\<close> binds one global name, the class
  \<^verbatim>\<open>BaseMime\<close>, and no builtin is called \<^verbatim>\<open>BaseMimeType\<close>, \<^verbatim>\<open>DEFAULT_TEXT\<close> or
  \<^verbatim>\<open>DEFAULT_BINARY\<close>.
\<close>

datatype pyglobal = GClass string | GStr string

definition base_globals :: "string \<rightharpoonup> pyglobal" where
  "base_globals = [''BaseMime'' \<mapsto> GClass ''BaseMime'']"

definition load_global :: "string \<Rightarrow> py_error + pyglobal" where
  "load_global n = (case base_globals n of None \<Rightarrow> Inl NameError | Some v \<Rightarrow> Inr v)"

text \<open>The right operand of \<^verbatim>\<open>==\<close>: a raw string or another resolved type.\<close>

datatype operand = OStr string | OMime MimeType

definition py_isinstance :: "operand \<Rightarrow> pyglobal \<Rightarrow> py_error + bool" where
  "py_isinstance x cls =
     (case cls of
        GStr s \<Rightarrow> Inl TypeError
      | GClass c \<Rightarrow>
          (case x of
             OStr s \<Rightarrow> Inr (c \<in> set [''str'', ''basestring'', ''object''])
           | OMime m \<Rightarrow> Inr (c \<in> set [''MimeType'', ''BaseMime'', ''object''])))"

text \<open>\<^verbatim>\<open>BaseMime.__eq__\<close> called with a string.\<close>

definition BaseMime_eq_str :: "MimeType \<Rightarrow> string \<Rightarrow> py_error + bool" where
  "BaseMime_eq_str self s =
     (case load_global ''BaseMimeType'' of
        Inl e \<Rightarrow> Inl e
      | Inr cls \<Rightarrow>
          (case py_isinstance (OStr s) cls of
             Inl e \<Rightarrow> Inl e
           | Inr b \<Rightarrow> if b then Inl AttributeError else Inr (BaseMime_name self = s)))"

text \<open>
  \<^verbatim>\<open>BaseMime.__eq__\<close>. In the last line \<^verbatim>\<open>self.name() == other\<close> a string is compared
  with \<^verbatim>\<open>other\<close>; when \<^verbatim>\<open>other\<close> is a resolved type Python hands the comparison to
  \<^verbatim>\<open>other.__eq__\<close>.
\<close>

definition BaseMime_eq :: "MimeType \<Rightarrow> operand \<Rightarrow> py_error + bool" where
  "BaseMime_eq self other =
     (case load_global ''BaseMimeType'' of
        Inl e \<Rightarrow> Inl e
      | Inr cls \<Rightarrow>
          (case py_isinstance other cls of
             Inl e \<Rightarrow> Inl e
           | Inr b \<Rightarrow>
               if b then
                 (case other of
                    OStr s \<Rightarrow> Inl AttributeError
                  | OMime m \<Rightarrow> Inr (BaseMime_name self = BaseMime_name m))
               else
                 (case other of
                    OStr s \<Rightarrow> Inr (BaseMime_name self = s)
                  | OMime m \<Rightarrow> BaseMime_eq_str m (BaseMime_name self))))"

definition global_is_str :: "pyglobal \<Rightarrow> string \<Rightarrow> bool" where
  "global_is_str v s = (case v of GStr t \<Rightarrow> t = s | GClass c \<Rightarrow> False)"

text \<open>\<^verbatim>\<open>BaseMime.isDefault\<close>:
  \<^verbatim>\<open>return name == DEFAULT_BINARY or name == DEFAULT_TEXT\<close>.\<close>

definition BaseMime_isDefault :: "MimeType \<Rightarrow> py_error + bool" where
  "BaseMime_isDefault self =
     (let name = BaseMime_name self
      in case load_global ''DEFAULT_BINARY'' of
           Inl e \<Rightarrow> Inl e
         | Inr b \<Rightarrow>
             if global_is_str b name then Inr True
             else (case load_global ''DEFAULT_TEXT'' of
                     Inl e \<Rightarrow> Inl e
                   | Inr t \<Rightarrow> Inr (global_is_str t name)))"

definition MimeType_genericIcon :: "IconsFile \<Rightarrow> MimeType \<Rightarrow> string option" where
  "MimeType_genericIcon ic self = IconsFile_get ic (BaseMime_name self)"

text \<open>\<^verbatim>\<open>BaseMime.icon\<close>:
  \<^verbatim>\<open>return self.genericIcon() or self.name().replace("/", "-")\<close>. The left operand
  of \<^verbatim>\<open>or\<close> is returned when it is true, which \<^verbatim>\<open>None\<close> and the empty string are not.\<close>

definition BaseMime_icon :: "IconsFile \<Rightarrow> MimeType \<Rightarrow> string" where
  "BaseMime_icon ic self =
     (case MimeType_genericIcon ic self of
        None \<Rightarrow> str_replace (CHR ''/'') (CHR ''-'') (BaseMime_name self)
      | Some i \<Rightarrow>
          if i \<noteq> [] then i
          else str_replace (CHR ''/'') (CHR ''-'') (BaseMime_name self))"

text \<open>\<^verbatim>\<open>MimeType.fromName\<close>: \<^verbatim>\<open>if mime: return cls(mime)\<close>, and \<^verbatim>\<open>None\<close> otherwise.\<close>

definition MimeType_fromName :: "GlobsFile \<Rightarrow> string \<Rightarrow> py_error + MimeType option" where
  "MimeType_fromName g name =
     (case GlobsFile_match g name of
        Inl e \<Rightarrow> Inl e
      | Inr mime \<Rightarrow> if mime \<noteq> [] then Inr (Some (BaseMime_init mime)) else Inr None)"

section \<open>The per-type documents: \<^verbatim>\<open>getMimeFiles\<close>, \<^verbatim>\<open>comment\<close> and \<^verbatim>\<open>aliases\<close>\<close>

text \<open>
  What the methods read of a document \<^verbatim>\<open>minidom.parse\<close> returns: of every
  \<^verbatim>\<open>comment\<close> element its \<^verbatim>\<open>xml:lang\<close> attribute (the empty string when the element
  has none) and the text of its child nodes joined, and of every \<^verbatim>\<open>alias\<close> element
  its \<^verbatim>\<open>type\<close> attribute. The host gives the directories of \<^verbatim>\<open>XDG_DATA_DIRS\<close> in
  the order the loop visits them, and the document at every path that exists.
\<close>

record xml_document =
  comment_elements :: "(string \<times> string) list"
  alias_elements :: "string list"

record host =
  data_dirs :: "string list"
  documents :: "string \<rightharpoonup> xml_document"

text \<open>\<^verbatim>\<open>os.path.join(a, b)\<close> of \<^verbatim>\<open>posixpath\<close>.\<close>

definition path_join :: "string \<Rightarrow> string \<Rightarrow> string" where
  "path_join a b =
     (if startswith_char (CHR ''/'') b then b
      else if a = [] then b
      else if endswith_char (CHR ''/'') a then a @ b
      else a @ CHR ''/'' # b)"

text \<open>
  The loop of \<^verbatim>\<open>getMimeFiles\<close>; \<^verbatim>\<open>type, subtype = name.split("/")\<close> raises
  \<^verbatim>\<open>ValueError\<close> unless the name has exactly one \<^verbatim>\<open>/\<close>. The result holds, for every
  path that exists, the document read from it.
\<close>

fun getMimeFiles_dirs :: "host \<Rightarrow> string \<Rightarrow> string list \<Rightarrow> py_error + xml_document list" where
  "getMimeFiles_dirs h name [] = Inr []"
| "getMimeFiles_dirs h name (dir # dirs) =
     (case str_split (CHR ''/'') name of
        [type, subtype] \<Rightarrow>
          (let path = path_join (path_join (path_join dir ''mime'') type) (subtype @ ''.xml'')
           in case getMimeFiles_dirs h name dirs of
                Inl e \<Rightarrow> Inl e
              | Inr ps \<Rightarrow>
                  Inr (case documents h path of None \<Rightarrow> ps | Some doc \<Rightarrow> doc # ps))
      | _ \<Rightarrow> Inl ValueError)"

definition getMimeFiles :: "host \<Rightarrow> string \<Rightarrow> py_error + xml_document list" where
  "getMimeFiles h name = getMimeFiles_dirs h name (data_dirs h)"

definition str_strip :: "string \<Rightarrow> string" where
  "str_strip s = rev (dropWhile is_space (rev (dropWhile is_space s)))"

text \<open>The inner loop of \<^verbatim>\<open>comment\<close>: the first element of the document in the
  language asked for is stored, and \<^verbatim>\<open>break\<close> ends the loop over this document.\<close>

fun comment_elements_loop :: "string \<Rightarrow> pyval \<Rightarrow> (string \<times> string) list \<Rightarrow> py_error + pyval" where
  "comment_elements_loop lang c [] = Inr c"
| "comment_elements_loop lang c (el # els) =
     (let nslang = (if fst el \<noteq> [] then fst el else ''en'')
      in if nslang = lang then py_setitem c lang (str_strip (snd el))
         else comment_elements_loop lang c els)"

fun comment_files_loop :: "string \<Rightarrow> pyval \<Rightarrow> xml_document list \<Rightarrow> py_error + pyval" where
  "comment_files_loop lang c [] = Inr c"
| "comment_files_loop lang c (doc # docs) =
     (case comment_elements_loop lang c (comment_elements doc) of
        Inl e \<Rightarrow> Inl e
      | Inr c' \<Rightarrow> comment_files_loop lang c' docs)"

text \<open>\<^verbatim>\<open>MimeType.comment\<close>: the value returned (\<open>None\<close> for Python's \<^verbatim>\<open>None\<close>) and
  the instance as the call leaves it.\<close>

definition MimeType_comment :: "host \<Rightarrow> MimeType \<Rightarrow> string \<Rightarrow> py_error + (string option \<times> MimeType)" where
  "MimeType_comment h self lang =
     (case get_attr (comment_field self) of
        Inl e \<Rightarrow> Inl e
      | Inr c \<Rightarrow>
          (case py_contains c lang of
             Inl e \<Rightarrow> Inl e
           | Inr present \<Rightarrow>
               if present then
                 (case py_getitem c lang of
                    Inl e \<Rightarrow> Inl e
                  | Inr text \<Rightarrow> Inr (Some text, self))
               else
                 (case getMimeFiles h (BaseMime_name self) of
                    Inl e \<Rightarrow> Inl e
                  | Inr files \<Rightarrow>
                      if files = [] then Inr (None, self)
                      else
                        (case comment_files_loop lang c files of
                           Inl e \<Rightarrow> Inl e
                         | Inr c' \<Rightarrow>
                             (case py_getitem c' lang of
                                Inl e \<Rightarrow> Inl e
                              | Inr text \<Rightarrow>
                                  Inr (Some text, self\<lparr>comment_field := Some c'\<rparr>))))))"

text \<open>The loops of \<^verbatim>\<open>aliases\<close>:
  \<^verbatim>\<open>if alias not in self._aliases: self._aliases.append(alias)\<close>.\<close>

fun alias_elements_loop :: "pyval \<Rightarrow> string list \<Rightarrow> py_error + pyval" where
  "alias_elements_loop a [] = Inr a"
| "alias_elements_loop a (alias # rest) =
     (case py_contains a alias of
        Inl e \<Rightarrow> Inl e
      | Inr present \<Rightarrow>
          if present then alias_elements_loop a rest
          else (case py_append a alias of
                  Inl e \<Rightarrow> Inl e
                | Inr a' \<Rightarrow> alias_elements_loop a' rest))"

fun alias_files_loop :: "pyval \<Rightarrow> xml_document list \<Rightarrow> py_error + pyval" where
  "alias_files_loop a [] = Inr a"
| "alias_files_loop a (doc # docs) =
     (case alias_elements_loop a (alias_elements doc) of
        Inl e \<Rightarrow> Inl e
      | Inr a' \<Rightarrow> alias_files_loop a' docs)"

text \<open>\<^verbatim>\<open>MimeType.aliases\<close>: the value returned (\<open>PyNone\<close> for the bare
  \<^verbatim>\<open>return\<close>) and the instance as the call leaves it.\<close>

definition MimeType_aliases :: "host \<Rightarrow> MimeType \<Rightarrow> py_error + (pyval \<times> MimeType)" where
  "MimeType_aliases h self =
     (case get_attr (aliases_field self) of
        Inl e \<Rightarrow> Inl e
      | Inr a \<Rightarrow>
          if py_truth a then Inr (a, self)
          else
            (case getMimeFiles h (BaseMime_name self) of
               Inl e \<Rightarrow> Inl e
             | Inr files \<Rightarrow>
                 if files = [] then Inr (PyNone, self)
                 else
                   (case alias_files_loop a files of
                      Inl e \<Rightarrow> Inl e
                    | Inr a' \<Rightarrow> Inr (a', self\<lparr>aliases_field := Some a'\<rparr>))))"

section \<open>Loaded tables used as examples\<close>

text \<open>The module's icon singleton: \<^verbatim>\<open>ICONS = IconsFile()\<close>, one
  \<^verbatim>\<open>ICONS.parse(f)\<close>, then \<^verbatim>\<open>MimeType(mime).icon()\<close>.\<close>

definition load_and_icon :: "string list \<Rightarrow> string \<Rightarrow> py_error + string" where
  "load_and_icon lines mime =
     (case IconsFile_parse IconsFile_init lines of
        Inl e \<Rightarrow> Inl e
      | Inr ic \<Rightarrow> Inr (BaseMime_icon ic (BaseMime_init mime)))"

text \<open>A glob table of five pattern rules and no literal rule.\<close>

definition example_globs :: GlobsFile where
  "example_globs =
     \<lparr>matches =
        [(50, ''application/gzip'', ''*.gz'', []),
         (50, ''application/x-compressed-tar'', ''*.tar.gz'', []),
         (60, ''text/x-log'', ''*.log'', []),
         (50, ''text/x-server-log'', ''server*.log'', []),
         (50, ''application/x-other'', ''?.gz'', [])],
      literals = Map.empty\<rparr>"

text \<open>A glob table whose one rule has the empty string as its type.\<close>

definition untyped_globs :: GlobsFile where
  "untyped_globs = \<lparr>matches = [(50, [], ''*.x'', [])], literals = Map.empty\<rparr>"

section \<open>Evaluating the model on the example tables\<close>

lemmas glob_eval =
  fnmatch_def compile_item_def rule_hit_def rule_glob_def rule_flags_def rule_weight_def
  rule_mime_def candidate_of_def str_lower_def lower_char_def bracket_close_def
  startswith_char_def endswith_char_def

lemmas parse_eval =
  GlobsFile_parse_line_def GlobsFile_init_def line_fields_def chomp_def newline_def
  startswith_char_def endswith_char_def py_int_def is_space_def digit_val_def
  no_wildcard_def

lemma example_globs_loaded:
  "GlobsFile_parse GlobsFile_init
     [''50:application/gzip:*.gz'' @ [newline],
      ''50:application/x-compressed-tar:*.tar.gz'' @ [newline],
      ''# a comment'' @ [newline],
      ''60:text/x-log:*.log:'' @ [newline],
      ''50:text/x-server-log:server*.log'' @ [newline],
      ''50:application/x-other:?.gz'' @ [newline]] = Inr example_globs"
  by (simp add: parse_eval example_globs_def)

lemma untyped_globs_loaded:
  "GlobsFile_parse GlobsFile_init [''50::*.x'' @ [newline]] = Inr untyped_globs"
  by (simp add: parse_eval untyped_globs_def)

section \<open>The literal index\<close>

text \<open>A line with an integer weight and a glob without wildcard: the index stored for
  the glob is the position after the rule just appended, and looking the glob up in the
  table this line leaves raises \<^verbatim>\<open>IndexError\<close>.\<close>

lemma literal_rule_loaded_last_raises:
  assumes "\<not> startswith_char (CHR ''#'') line"
    and "line_fields (chomp line) = (weight, mime, glob, flags)"
    and "py_int weight = Inr w"
    and "no_wildcard glob"
  shows "\<exists>g'. GlobsFile_parse_line g line = Inr g' \<and>
           matches g' = matches g @ [(w, mime, glob, flags)] \<and>
           literals g' glob = Some (Suc (length (matches g))) \<and>
           GlobsFile_match g' glob = Inl IndexError"
  using assms by (simp add: GlobsFile_parse_line_def Let_def GlobsFile_match_def)

text \<open>
  C1. The claim: a file name that is a literal glob of the table gets the type of the
  last literal rule loaded for it. The code stores in the literal index the length of
  the rule list after the append, which is one more than the rule's position. So
  \<^verbatim>\<open>match\<close> raises \<^verbatim>\<open>IndexError\<close> when the literal rule is the last rule loaded, and
  otherwise returns the type of the rule loaded after it: with the one rule
  \<^verbatim>\<open>50:text/x-makefile:Makefile\<close> the name \<^verbatim>\<open>Makefile\<close> raises, and with the rule
  \<^verbatim>\<open>50:image/png:*.png\<close> loaded after it the answer is \<^verbatim>\<open>image/png\<close>.
\<close>

theorem literal_index_off_by_one:
  "load_and_match [''50:text/x-makefile:Makefile'' @ [newline]] ''Makefile'' = Inl IndexError \<and>
   load_and_match [''50:text/x-makefile:Makefile'' @ [newline],
                   ''50:image/png:*.png'' @ [newline]] ''Makefile'' = Inr ''image/png''"
  by (simp add: load_and_match_def parse_eval GlobsFile_match_def rule_mime_def)

section \<open>The choice among the matching rules\<close>

text \<open>The scan keeps the rules that hit, in the order of the table.\<close>

lemma scan_filter:
  "scan name rs = Inr ms \<Longrightarrow>
   ms = map candidate_of (filter (\<lambda>r. rule_hit name r = Inr True) rs)"
proof (induction rs arbitrary: ms)
  case Nil
  then show ?case by simp
next
  case (Cons r rs)
  then show ?case
    by (auto split: sum.splits if_splits)
qed

text \<open>Whether \<^verbatim>\<open>fnmatch\<close> raises depends on the pattern alone, so the scan completes
  on every table whose globs all compile.\<close>

lemma rule_hit_completes:
  "compile_items (translate (rule_glob r)) = Inr re \<Longrightarrow> \<exists>b. rule_hit name r = Inr b"
  by (auto simp: rule_hit_def fnmatch_def)

lemma scan_completes:
  "list_all (\<lambda>r. \<exists>re. compile_items (translate (rule_glob r)) = Inr re) rs \<Longrightarrow>
   \<exists>ms. scan name rs = Inr ms"
proof (induction rs)
  case Nil
  then show ?case by simp
next
  case (Cons r rs)
  from Cons.prems obtain re where "compile_items (translate (rule_glob r)) = Inr re"
    by auto
  then obtain b where "rule_hit name r = Inr b"
    using rule_hit_completes by blast
  moreover from Cons obtain ms where "scan name rs = Inr ms"
    by auto
  ultimately show ?case by simp
qed

text \<open>On such a table \<^verbatim>\<open>match\<close> returns for every name outside the literal index.\<close>

lemma match_returns_on_compiling_globs:
  assumes "literals g name = None"
    and "list_all (\<lambda>r. \<exists>re. compile_items (translate (rule_glob r)) = Inr re) (matches g)"
  shows "\<exists>mime. GlobsFile_match g name = Inr mime"
proof -
  from assms(2) obtain ms where "scan name (matches g) = Inr ms"
    using scan_completes by blast
  with assms(1) show ?thesis
    by (cases ms) (simp_all add: GlobsFile_match_def py_max_def)
qed

lemma key_less_trans: "key_less a b \<Longrightarrow> key_less b c \<Longrightarrow> key_less a c"
  by (auto simp: key_less_def)

lemma key_not_less_trans: "\<not> key_less b x \<Longrightarrow> key_less b r \<Longrightarrow> key_less x r"
  by (auto simp: key_less_def prod_eq_iff)

text \<open>\<open>max_from\<close> returns an element of the list; every element before it has a
  smaller key and no element after it has a greater one.\<close>

lemma max_from_split:
  "\<exists>pre post. b # xs = pre @ max_from b xs # post \<and>
     (\<forall>y\<in>set pre. key_less (match_key y) (match_key (max_from b xs))) \<and>
     (\<forall>y\<in>set post. \<not> key_less (match_key (max_from b xs)) (match_key y))"
proof (induction xs arbitrary: b)
  case Nil
  have "[b] = [] @ max_from b [] # []" by simp
  then show ?case by fastforce
next
  case (Cons x xs)
  show ?case
  proof (cases "key_less (match_key b) (match_key x)")
    case True
    then have r: "max_from b (x # xs) = max_from x xs" by simp
    from Cons.IH [of x] obtain pre post where
      s: "x # xs = pre @ max_from x xs # post" and
      lo: "\<forall>y\<in>set pre. key_less (match_key y) (match_key (max_from x xs))" and
      hi: "\<forall>y\<in>set post. \<not> key_less (match_key (max_from x xs)) (match_key y)"
      by blast
    have bx: "key_less (match_key b) (match_key (max_from x xs))"
    proof (cases pre)
      case Nil
      with s have "x # xs = max_from x xs # post" by (simp only: append_Nil)
      then have "x = max_from x xs" by (rule list.inject [THEN iffD1, THEN conjunct1])
      with True show ?thesis by simp
    next
      case (Cons p pre')
      with s have "x \<in> set pre" by simp
      with lo have "key_less (match_key x) (match_key (max_from x xs))" by blast
      with True show ?thesis by (rule key_less_trans)
    qed
    have "b # x # xs = (b # pre) @ max_from x xs # post" using s by simp
    moreover have "\<forall>y\<in>set (b # pre). key_less (match_key y) (match_key (max_from x xs))"
      using lo bx by simp
    ultimately show ?thesis using hi unfolding r by blast
  next
    case False
    then have r: "max_from b (x # xs) = max_from b xs" by simp
    from Cons.IH [of b] obtain pre post where
      s: "b # xs = pre @ max_from b xs # post" and
      lo: "\<forall>y\<in>set pre. key_less (match_key y) (match_key (max_from b xs))" and
      hi: "\<forall>y\<in>set post. \<not> key_less (match_key (max_from b xs)) (match_key y)"
      by blast
    show ?thesis
    proof (cases pre)
      case Nil
      with s have e: "b # xs = max_from b xs # post" by (simp only: append_Nil)
      from e have b: "b = max_from b xs" by (rule list.inject [THEN iffD1, THEN conjunct1])
      from e have p: "xs = post" by (rule list.inject [THEN iffD1, THEN conjunct2])
      have "b # x # xs = [] @ max_from b xs # (x # post)" using b p by simp
      moreover have "\<forall>y\<in>set (x # post). \<not> key_less (match_key (max_from b xs)) (match_key y)"
        using hi False b by simp
      ultimately show ?thesis unfolding r by (metis empty_iff list.set(1))
    next
      case (Cons p pre')
      with s have e: "b # xs = p # (pre' @ max_from b xs # post)" by (simp only: append_Cons)
      from e have pb: "p = b" by (rule list.inject [THEN iffD1, THEN conjunct1, symmetric])
      from e have xs: "xs = pre' @ max_from b xs # post"
        by (rule list.inject [THEN iffD1, THEN conjunct2])
      from lo Cons pb have br: "key_less (match_key b) (match_key (max_from b xs))" by simp
      from False br have xr: "key_less (match_key x) (match_key (max_from b xs))"
        by (rule key_not_less_trans)
      have "b # x # xs = (b # x # pre') @ max_from b xs # post" using xs by simp
      moreover have "\<forall>y\<in>set (b # x # pre'). key_less (match_key y) (match_key (max_from b xs))"
        using lo Cons pb xr by simp
      ultimately show ?thesis using hi unfolding r by blast
    qed
  qed
qed

lemma glob_compiles_iff:
  "glob_compiles pat = (\<exists>re. compile_items (translate pat) = Inr re)"
  by (simp add: glob_compiles_def split: sum.splits)

text \<open>
  C2, as amended. For a file name that is not in the literal index, on a table every
  glob of which \<^verbatim>\<open>fnmatch\<close> can compile and at least one rule of which matches the
  name, \<^verbatim>\<open>match\<close> returns the type of a matching rule \<open>c\<close> such that every matching
  rule before it in the scan has a smaller key and no matching rule after it has a
  greater key, the key being the weight first and the length of the glob second: the
  rule of greatest weight, among those the one with the longest glob, and among those
  the first in scan order. The matching rules are the rules of the table that hit, in
  table order.
\<close>

theorem match_picks_first_maximum:
  assumes "literals g name = None"
    and "list_all (\<lambda>r. glob_compiles (rule_glob r)) (matches g)"
    and "\<exists>r\<in>set (matches g). rule_hit name r = Inr True"
  shows "\<exists>pre c post.
           map candidate_of (filter (\<lambda>r. rule_hit name r = Inr True) (matches g)) =
             pre @ c # post \<and>
           GlobsFile_match g name = Inr (fst (snd c)) \<and>
           (\<forall>y\<in>set pre. key_less (match_key y) (match_key c)) \<and>
           (\<forall>y\<in>set post. \<not> key_less (match_key c) (match_key y))"
proof -
  from assms(2)
  have "list_all (\<lambda>r. \<exists>re. compile_items (translate (rule_glob r)) = Inr re) (matches g)"
    by (simp add: glob_compiles_iff)
  then obtain ms where sc: "scan name (matches g) = Inr ms"
    using scan_completes by blast
  then have f: "ms = map candidate_of (filter (\<lambda>r. rule_hit name r = Inr True) (matches g))"
    by (rule scan_filter)
  from assms(3) have "filter (\<lambda>r. rule_hit name r = Inr True) (matches g) \<noteq> []"
    by (simp add: filter_empty_conv)
  with f have "ms \<noteq> []" by simp
  then obtain m rest where ms: "ms = m # rest" by (cases ms) auto
  from max_from_split [of m rest] obtain pre post where
    s: "m # rest = pre @ max_from m rest # post" and
    lo: "\<forall>y\<in>set pre. key_less (match_key y) (match_key (max_from m rest))" and
    hi: "\<forall>y\<in>set post. \<not> key_less (match_key (max_from m rest)) (match_key y)"
    by blast
  have "GlobsFile_match g name = Inr (fst (snd (max_from m rest)))"
    using assms(1) sc ms by (simp add: GlobsFile_match_def py_max_def)
  moreover from f ms s
  have "map candidate_of (filter (\<lambda>r. rule_hit name r = Inr True) (matches g)) =
      pre @ max_from m rest # post"
    by simp
  ultimately show ?thesis using lo hi by blast
qed

theorem match_picks_first_maximum_witness:
  "literals example_globs ''x.tar.gz'' = None \<and>
   list_all (\<lambda>r. glob_compiles (rule_glob r)) (matches example_globs) \<and>
   rule_hit ''x.tar.gz'' (50, ''application/x-compressed-tar'', ''*.tar.gz'', []) = Inr True \<and>
   map candidate_of
     (filter (\<lambda>r. rule_hit ''x.tar.gz'' r = Inr True) (matches example_globs)) =
     [(50, ''application/gzip'', ''*.gz''),
      (50, ''application/x-compressed-tar'', ''*.tar.gz'')] \<and>
   GlobsFile_match example_globs ''x.tar.gz'' = Inr ''application/x-compressed-tar'' \<and>
   map candidate_of
     (filter (\<lambda>r. rule_hit ''server.log'' r = Inr True) (matches example_globs)) =
     [(60, ''text/x-log'', ''*.log''), (50, ''text/x-server-log'', ''server*.log'')] \<and>
   GlobsFile_match example_globs ''server.log'' = Inr ''text/x-log'' \<and>
   map candidate_of
     (filter (\<lambda>r. rule_hit ''a.gz'' r = Inr True) (matches example_globs)) =
     [(50, ''application/gzip'', ''*.gz''), (50, ''application/x-other'', ''?.gz'')] \<and>
   GlobsFile_match example_globs ''a.gz'' = Inr ''application/gzip'' \<and>
   (\<exists>pre c post.
      [(50, ''application/gzip'', ''*.gz''),
       (50, ''application/x-compressed-tar'', ''*.tar.gz'')] = pre @ c # post \<and>
      GlobsFile_match example_globs ''x.tar.gz'' = Inr (fst (snd c)) \<and>
      (\<forall>y\<in>set pre. key_less (match_key y) (match_key c)) \<and>
      (\<forall>y\<in>set post. \<not> key_less (match_key c) (match_key y)))"
proof -
  have l: "literals example_globs ''x.tar.gz'' = None"
    by (simp add: example_globs_def)
  have c: "list_all (\<lambda>r. glob_compiles (rule_glob r)) (matches example_globs)"
    by (simp add: example_globs_def glob_compiles_def rule_glob_def compile_item_def)
  have h: "rule_hit ''x.tar.gz'' (50, ''application/x-compressed-tar'', ''*.tar.gz'', []) =
      Inr True"
    by (simp add: glob_eval)
  have e: "\<exists>r\<in>set (matches example_globs). rule_hit ''x.tar.gz'' r = Inr True"
    using h by (simp add: example_globs_def)
  have f1: "map candidate_of
     (filter (\<lambda>r. rule_hit ''x.tar.gz'' r = Inr True) (matches example_globs)) =
     [(50, ''application/gzip'', ''*.gz''),
      (50, ''application/x-compressed-tar'', ''*.tar.gz'')]"
    by (simp add: example_globs_def glob_eval)
  note t = match_picks_first_maximum [OF l c e, unfolded f1]
  have m1: "GlobsFile_match example_globs ''x.tar.gz'' = Inr ''application/x-compressed-tar''"
    by (simp add: example_globs_def glob_eval GlobsFile_match_def py_max_def match_key_def
        key_less_def)
  have f2: "map candidate_of
     (filter (\<lambda>r. rule_hit ''server.log'' r = Inr True) (matches example_globs)) =
     [(60, ''text/x-log'', ''*.log''), (50, ''text/x-server-log'', ''server*.log'')]"
    by (simp add: example_globs_def glob_eval)
  have m2: "GlobsFile_match example_globs ''server.log'' = Inr ''text/x-log''"
    by (simp add: example_globs_def glob_eval GlobsFile_match_def py_max_def match_key_def
        key_less_def)
  have f3: "map candidate_of
     (filter (\<lambda>r. rule_hit ''a.gz'' r = Inr True) (matches example_globs)) =
     [(50, ''application/gzip'', ''*.gz''), (50, ''application/x-other'', ''?.gz'')]"
    by (simp add: example_globs_def glob_eval)
  have m3: "GlobsFile_match example_globs ''a.gz'' = Inr ''application/gzip''"
    by (simp add: example_globs_def glob_eval GlobsFile_match_def py_max_def match_key_def
        key_less_def)
  from l c h f1 m1 f2 m2 f3 m3 t show ?thesis by (intro conjI)
qed

text \<open>
  The glob \<^verbatim>\<open>[z-a]\<close> holds a bracket range whose upper end is below its lower end,
  which \<^verbatim>\<open>re.compile\<close> refuses. On the table of the two lines
  \<^verbatim>\<open>50:text/plain:*.txt\<close> and \<^verbatim>\<open>50:x/y:[z-a]\<close> the name \<^verbatim>\<open>a.txt\<close> is not in the
  literal index and the first rule matches it, yet \<^verbatim>\<open>match\<close> returns no type: the
  scan raises when it reaches the second rule.
\<close>

theorem uncompilable_glob_counterexample:
  "GlobsFile_parse GlobsFile_init
     [''50:text/plain:*.txt'' @ [newline], ''50:x/y:[z-a]'' @ [newline]] =
     Inr \<lparr>matches = [(50, ''text/plain'', ''*.txt'', []), (50, ''x/y'', ''[z-a]'', [])],
          literals = Map.empty\<rparr> \<and>
   literals \<lparr>matches = [(50, ''text/plain'', ''*.txt'', []), (50, ''x/y'', ''[z-a]'', [])],
            literals = Map.empty\<rparr> ''a.txt'' = None \<and>
   rule_hit ''a.txt'' (50, ''text/plain'', ''*.txt'', []) = Inr True \<and>
   GlobsFile_match
     \<lparr>matches = [(50, ''text/plain'', ''*.txt'', []), (50, ''x/y'', ''[z-a]'', [])],
      literals = Map.empty\<rparr> ''a.txt'' = Inl RegexError \<and>
   load_and_match [''50:text/plain:*.txt'' @ [newline], ''50:x/y:[z-a]'' @ [newline]]
     ''a.txt'' = Inl RegexError"
  by (simp add: load_and_match_def parse_eval glob_eval GlobsFile_match_def)

section \<open>The lower-case fallback\<close>

text \<open>
  C3, as amended. For every rule without the flag \<^verbatim>\<open>cs\<close>, the scan takes the rule
  as matching exactly when the file name or the lower-case form of the file name
  matches the glob. The glob itself is never lower-cased: the glob \<^verbatim>\<open>*.jpg\<close>
  matches the file name \<^verbatim>\<open>PHOTO.JPG\<close>.
\<close>

theorem rule_hit_lowercases_name:
  assumes "''cs'' \<notin> set (rule_flags r)"
  shows "(rule_hit name r = Inr True) =
         (fnmatch name (rule_glob r) = Inr True \<or>
          fnmatch (str_lower name) (rule_glob r) = Inr True)"
  using assms by (auto simp: rule_hit_def fnmatch_def split: sum.splits)

theorem rule_hit_lowercases_name_witness:
  "''cs'' \<notin> set (rule_flags (50, ''image/jpeg'', ''*.jpg'', [])) \<and>
   str_lower ''PHOTO.JPG'' = ''photo.jpg'' \<and>
   fnmatch ''PHOTO.JPG'' (rule_glob (50, ''image/jpeg'', ''*.jpg'', [])) = Inr False \<and>
   fnmatch (str_lower ''PHOTO.JPG'') (rule_glob (50, ''image/jpeg'', ''*.jpg'', [])) = Inr True \<and>
   rule_hit ''PHOTO.JPG'' (50, ''image/jpeg'', ''*.jpg'', []) = Inr True"
proof -
  have f: "''cs'' \<notin> set (rule_flags (50, ''image/jpeg'', ''*.jpg'', []))"
    by (simp add: rule_flags_def)
  have lo: "str_lower ''PHOTO.JPG'' = ''photo.jpg''"
    by (simp add: str_lower_def lower_char_def)
  have u: "fnmatch ''PHOTO.JPG'' (rule_glob (50, ''image/jpeg'', ''*.jpg'', [])) = Inr False"
    by (simp add: rule_glob_def fnmatch_def compile_item_def)
  have m: "fnmatch (str_lower ''PHOTO.JPG'') (rule_glob (50, ''image/jpeg'', ''*.jpg'', [])) =
      Inr True"
    by (simp add: lo rule_glob_def fnmatch_def compile_item_def)
  have "rule_hit ''PHOTO.JPG'' (50, ''image/jpeg'', ''*.jpg'', []) = Inr True"
    using rule_hit_lowercases_name [OF f, of "''PHOTO.JPG''"] m by blast
  with f lo u m show ?thesis by (intro conjI)
qed

text \<open>The rule \<^verbatim>\<open>*.JPG\<close> without the flag \<^verbatim>\<open>cs\<close> does not match \<^verbatim>\<open>photo.jpg\<close>:
  neither the name nor its lower-case form ends in \<^verbatim>\<open>.JPG\<close>, and a table holding
  this rule alone gives the no-match result.\<close>

theorem upper_case_glob_counterexample:
  "''cs'' \<notin> set (rule_flags (50, ''image/jpeg'', ''*.JPG'', [])) \<and>
   rule_hit ''photo.jpg'' (50, ''image/jpeg'', ''*.JPG'', []) = Inr False \<and>
   load_and_match [''50:image/jpeg:*.JPG'' @ [newline]] ''photo.jpg'' = Inr []"
  by (simp add: glob_eval load_and_match_def parse_eval GlobsFile_match_def)

section \<open>Lines with missing fields\<close>

lemma py_int_error: "py_int s = Inl e \<Longrightarrow> e = ValueError"
  by (auto simp: py_int_def Let_def split: if_splits option.splits)

lemma py_int_empty: "py_int [] = Inl ValueError"
  by (simp add: py_int_def startswith_char_def)

text \<open>
  C9, as amended. A line that is not a comment raises a load-time error exactly when
  the text before its first colon is not an integer literal, and the error is
  \<^verbatim>\<open>ValueError\<close>; a missing or empty weight is such a line. A line whose weight is
  an integer is accepted whatever its other fields are: the rule is appended with the
  type, the glob and the flags the four partitions give, each of them empty when the
  line is too short to hold it.
\<close>

theorem parse_line_raises_iff_weight_not_int:
  assumes "\<not> startswith_char (CHR ''#'') line"
    and "line_fields (chomp line) = (weight, mime, glob, flags)"
  shows "((\<exists>e. GlobsFile_parse_line g line = Inl e) = (py_int weight = Inl ValueError)) \<and>
         (py_int weight = Inl ValueError \<longrightarrow> GlobsFile_parse_line g line = Inl ValueError) \<and>
         (weight = [] \<longrightarrow> GlobsFile_parse_line g line = Inl ValueError) \<and>
         (\<forall>w. py_int weight = Inr w \<longrightarrow>
            (\<exists>g'. GlobsFile_parse_line g line = Inr g' \<and>
                  matches g' = matches g @ [(w, mime, glob, flags)]))"
proof (cases "py_int weight")
  case (Inl e)
  then have e: "py_int weight = Inl ValueError"
    using py_int_error by blast
  then have "GlobsFile_parse_line g line = Inl ValueError"
    using assms by (simp add: GlobsFile_parse_line_def)
  with e show ?thesis by simp
next
  case (Inr w)
  then have "\<exists>g'. GlobsFile_parse_line g line = Inr g' \<and>
                  matches g' = matches g @ [(w, mime, glob, flags)]"
    using assms by (simp add: GlobsFile_parse_line_def Let_def)
  moreover have "weight \<noteq> []"
    using Inr py_int_empty by auto
  ultimately show ?thesis using Inr by auto
qed

theorem parse_line_raises_iff_weight_not_int_witness:
  "\<not> startswith_char (CHR ''#'') ('':text/plain:*.txt'' @ [newline]) \<and>
   line_fields (chomp ('':text/plain:*.txt'' @ [newline])) = ([], ''text/plain'', ''*.txt'', []) \<and>
   GlobsFile_parse_line GlobsFile_init ('':text/plain:*.txt'' @ [newline]) = Inl ValueError \<and>
   \<not> startswith_char (CHR ''#'') (''50:text/plain'' @ [newline]) \<and>
   line_fields (chomp (''50:text/plain'' @ [newline])) = (''50'', ''text/plain'', [], []) \<and>
   py_int ''50'' = Inr 50 \<and>
   (\<exists>g'. GlobsFile_parse_line GlobsFile_init (''50:text/plain'' @ [newline]) = Inr g' \<and>
         matches g' = matches GlobsFile_init @ [(50, ''text/plain'', [], [])])"
proof -
  have a1: "\<not> startswith_char (CHR ''#'') ('':text/plain:*.txt'' @ [newline])"
    by (simp add: startswith_char_def)
  have a2: "line_fields (chomp ('':text/plain:*.txt'' @ [newline])) =
      ([], ''text/plain'', ''*.txt'', [])"
    by (simp add: line_fields_def chomp_def endswith_char_def newline_def)
  have r1: "GlobsFile_parse_line GlobsFile_init ('':text/plain:*.txt'' @ [newline]) =
      Inl ValueError"
    using parse_line_raises_iff_weight_not_int [OF a1 a2, of GlobsFile_init] by simp
  have b1: "\<not> startswith_char (CHR ''#'') (''50:text/plain'' @ [newline])"
    by (simp add: startswith_char_def)
  have b2: "line_fields (chomp (''50:text/plain'' @ [newline])) =
      (''50'', ''text/plain'', [], [])"
    by (simp add: line_fields_def chomp_def endswith_char_def newline_def)
  have i: "py_int ''50'' = Inr 50"
    by (simp add: py_int_def is_space_def startswith_char_def digit_val_def)
  have r2: "\<exists>g'. GlobsFile_parse_line GlobsFile_init (''50:text/plain'' @ [newline]) = Inr g' \<and>
         matches g' = matches GlobsFile_init @ [(50, ''text/plain'', [], [])]"
    using parse_line_raises_iff_weight_not_int [OF b1 b2, of GlobsFile_init] i by blast
  from a1 a2 r1 b1 b2 i r2 show ?thesis by (intro conjI)
qed

text \<open>The lines \<^verbatim>\<open>50:text/plain\<close>, which has no glob, and \<^verbatim>\<open>50\<close>, which has neither
  type nor glob, load without an error: each gives a rule with empty strings, entered
  in the literal index under the empty name.\<close>

theorem missing_fields_counterexample:
  "GlobsFile_parse GlobsFile_init [''50:text/plain'' @ [newline]] =
     Inr \<lparr>matches = [(50, ''text/plain'', [], [])], literals = [[] \<mapsto> 1]\<rparr> \<and>
   GlobsFile_parse GlobsFile_init [''50'' @ [newline]] =
     Inr \<lparr>matches = [(50, [], [], [])], literals = [[] \<mapsto> 1]\<rparr>"
  by (simp add: parse_eval)

section \<open>The icon of a type\<close>

lemma str_replace_empty: "(str_replace a b s = []) = (s = [])"
  by (simp add: str_replace_def)

text \<open>
  C7, as amended. \<^verbatim>\<open>icon()\<close> returns a string and cannot raise. It returns the
  generic icon name registered for the type name when that name is not empty, and
  otherwise (no name registered, or the empty name registered) the type name with every
  \<^verbatim>\<open>/\<close> replaced by \<^verbatim>\<open>-\<close>; the result is not empty when the type name is not.
\<close>

theorem icon_registered_or_derived:
  "(\<forall>i. MimeType_genericIcon ic self = Some i \<and> i \<noteq> [] \<longrightarrow> BaseMime_icon ic self = i) \<and>
   (MimeType_genericIcon ic self = None \<or> MimeType_genericIcon ic self = Some [] \<longrightarrow>
      BaseMime_icon ic self = str_replace (CHR ''/'') (CHR ''-'') (BaseMime_name self)) \<and>
   (BaseMime_name self \<noteq> [] \<longrightarrow> BaseMime_icon ic self \<noteq> [])"
  by (auto simp: BaseMime_icon_def str_replace_empty split: option.splits)

theorem icon_registered_or_derived_witness:
  "MimeType_genericIcon IconsFile_init (BaseMime_init ''application/x-foo'') = None \<and>
   BaseMime_icon IconsFile_init (BaseMime_init ''application/x-foo'') = ''application-x-foo'' \<and>
   MimeType_genericIcon \<lparr>icons = [''text/plain'' \<mapsto> ''text-x-generic'']\<rparr>
     (BaseMime_init ''text/plain'') = Some ''text-x-generic'' \<and>
   BaseMime_icon \<lparr>icons = [''text/plain'' \<mapsto> ''text-x-generic'']\<rparr>
     (BaseMime_init ''text/plain'') = ''text-x-generic''"
proof -
  have n: "MimeType_genericIcon IconsFile_init (BaseMime_init ''application/x-foo'') = None"
    by (simp add: MimeType_genericIcon_def IconsFile_get_def IconsFile_init_def)
  have d: "str_replace (CHR ''/'') (CHR ''-'') (BaseMime_name (BaseMime_init ''application/x-foo''))
      = ''application-x-foo''"
    by (simp add: str_replace_def BaseMime_name_def BaseMime_init_def)
  have r1: "BaseMime_icon IconsFile_init (BaseMime_init ''application/x-foo'') =
      ''application-x-foo''"
    using icon_registered_or_derived [of IconsFile_init "BaseMime_init ''application/x-foo''"] n d
    by simp
  have g: "MimeType_genericIcon \<lparr>icons = [''text/plain'' \<mapsto> ''text-x-generic'']\<rparr>
     (BaseMime_init ''text/plain'') = Some ''text-x-generic''"
    by (simp add: MimeType_genericIcon_def IconsFile_get_def BaseMime_name_def BaseMime_init_def)
  have r2: "BaseMime_icon \<lparr>icons = [''text/plain'' \<mapsto> ''text-x-generic'']\<rparr>
     (BaseMime_init ''text/plain'') = ''text-x-generic''"
    using icon_registered_or_derived [of "\<lparr>icons = [''text/plain'' \<mapsto> ''text-x-generic'']\<rparr>"
        "BaseMime_init ''text/plain''"] g
    by simp
  from n r1 g r2 show ?thesis by (intro conjI)
qed

text \<open>The icon source line \<^verbatim>\<open>application/x-foo:\<close> registers the empty string as the
  generic icon name of \<^verbatim>\<open>application/x-foo\<close>. \<^verbatim>\<open>icon()\<close> does not return this
  registered name but the derived one.\<close>

theorem empty_icon_counterexample:
  "IconsFile_parse IconsFile_init [''application/x-foo:'' @ [newline]] =
     Inr \<lparr>icons = [''application/x-foo'' \<mapsto> []]\<rparr> \<and>
   MimeType_genericIcon \<lparr>icons = [''application/x-foo'' \<mapsto> []]\<rparr>
     (BaseMime_init ''application/x-foo'') = Some [] \<and>
   BaseMime_icon \<lparr>icons = [''application/x-foo'' \<mapsto> []]\<rparr>
     (BaseMime_init ''application/x-foo'') = ''application-x-foo'' \<and>
   load_and_icon [''application/x-foo:'' @ [newline]] ''application/x-foo'' =
     Inr ''application-x-foo''"
  by (simp add: load_and_icon_def IconsFile_parse_line_def IconsFile_init_def chomp_def
      newline_def endswith_char_def BaseMime_icon_def MimeType_genericIcon_def
      IconsFile_get_def BaseMime_name_def BaseMime_init_def str_replace_def)

section \<open>From a file name to a resolved type\<close>

text \<open>
  C10. When the scan finds no matching rule, \<^verbatim>\<open>match\<close> returns the empty string.
  \<^verbatim>\<open>fromName\<close> returns a resolved type exactly when \<^verbatim>\<open>match\<close> returns a string
  that is not empty, and that string is the type's name, so the name of a type
  \<^verbatim>\<open>fromName\<close> returns is never empty. Whenever \<^verbatim>\<open>match\<close> returns the empty
  string, be it for no match or for a matching rule whose type is the empty string,
  \<^verbatim>\<open>fromName\<close> returns \<^verbatim>\<open>None\<close>.
\<close>

theorem fromName_absent_iff_empty:
  "(literals g name = None \<and> scan name (matches g) = Inr [] \<longrightarrow>
      GlobsFile_match g name = Inr []) \<and>
   (MimeType_fromName g name = Inr (Some t)) =
      (\<exists>mime. GlobsFile_match g name = Inr mime \<and> mime \<noteq> [] \<and> t = BaseMime_init mime) \<and>
   (MimeType_fromName g name = Inr (Some t) \<longrightarrow> BaseMime_name t \<noteq> []) \<and>
   (MimeType_fromName g name = Inr None) = (GlobsFile_match g name = Inr [])"
proof (intro conjI)
  show "literals g name = None \<and> scan name (matches g) = Inr [] \<longrightarrow>
      GlobsFile_match g name = Inr []"
    by (simp add: GlobsFile_match_def)
next
  show "(MimeType_fromName g name = Inr (Some t)) =
      (\<exists>mime. GlobsFile_match g name = Inr mime \<and> mime \<noteq> [] \<and> t = BaseMime_init mime)"
    by (auto simp: MimeType_fromName_def split: sum.splits if_splits)
next
  show "MimeType_fromName g name = Inr (Some t) \<longrightarrow> BaseMime_name t \<noteq> []"
    by (auto simp: MimeType_fromName_def BaseMime_name_def BaseMime_init_def
        split: sum.splits if_splits)
next
  show "(MimeType_fromName g name = Inr None) = (GlobsFile_match g name = Inr [])"
    by (auto simp: MimeType_fromName_def split: sum.splits if_splits)
qed

theorem fromName_absent_iff_empty_witness:
  "literals untyped_globs ''b.y'' = None \<and>
   scan ''b.y'' (matches untyped_globs) = Inr [] \<and>
   GlobsFile_match untyped_globs ''b.y'' = Inr [] \<and>
   MimeType_fromName untyped_globs ''b.y'' = Inr None \<and>
   scan ''a.x'' (matches untyped_globs) = Inr [(50, [], ''*.x'')] \<and>
   GlobsFile_match untyped_globs ''a.x'' = Inr [] \<and>
   MimeType_fromName untyped_globs ''a.x'' = Inr None \<and>
   MimeType_fromName example_globs ''a.gz'' = Inr (Some (BaseMime_init ''application/gzip'')) \<and>
   BaseMime_name (BaseMime_init ''application/gzip'') \<noteq> []"
proof -
  have l: "literals untyped_globs ''b.y'' = None"
    by (simp add: untyped_globs_def)
  have s1: "scan ''b.y'' (matches untyped_globs) = Inr []"
    by (simp add: untyped_globs_def glob_eval)
  note t1 = fromName_absent_iff_empty [of untyped_globs "''b.y''"]
  have m1: "GlobsFile_match untyped_globs ''b.y'' = Inr []"
    using t1 l s1 by blast
  have f1: "MimeType_fromName untyped_globs ''b.y'' = Inr None"
    using t1 m1 by blast
  have s2: "scan ''a.x'' (matches untyped_globs) = Inr [(50, [], ''*.x'')]"
    by (simp add: untyped_globs_def glob_eval)
  have m2: "GlobsFile_match untyped_globs ''a.x'' = Inr []"
    by (simp add: untyped_globs_def glob_eval GlobsFile_match_def py_max_def)
  have f2: "MimeType_fromName untyped_globs ''a.x'' = Inr None"
    using fromName_absent_iff_empty [of untyped_globs "''a.x''"] m2 by blast
  have m3: "GlobsFile_match example_globs ''a.gz'' = Inr ''application/gzip''"
    by (simp add: example_globs_def glob_eval GlobsFile_match_def py_max_def match_key_def
        key_less_def)
  note t3 = fromName_absent_iff_empty
    [of example_globs "''a.gz''" "BaseMime_init ''application/gzip''"]
  have f3: "MimeType_fromName example_globs ''a.gz'' =
      Inr (Some (BaseMime_init ''application/gzip''))"
    using t3 m3 by simp
  have n3: "BaseMime_name (BaseMime_init ''application/gzip'') \<noteq> []"
    using t3 f3 by blast
  from l s1 m1 f1 s2 m2 f2 f3 n3 show ?thesis by (intro conjI)
qed

section \<open>The methods of a resolved type that raise on every call\<close>

text \<open>
  C4. The claim: \<^verbatim>\<open>comment(lang)\<close> returns \<^verbatim>\<open>None\<close> when the documents hold no
  comment in that language, and the text when they hold one. The code raises
  \<^verbatim>\<open>TypeError\<close> on every call instead: \<^verbatim>\<open>__init__\<close> sets \<^verbatim>\<open>self._comment\<close> to
  \<^verbatim>\<open>None\<close>, and the first line of \<^verbatim>\<open>comment\<close> evaluates
  \<^verbatim>\<open>lang not in self._comment\<close>.
\<close>

theorem comment_raises_TypeError:
  "MimeType_comment h (BaseMime_init mime) lang = Inl TypeError"
  by (simp add: MimeType_comment_def BaseMime_init_def get_attr_def py_contains_def)

text \<open>
  C5. The claim: \<^verbatim>\<open>==\<close> between two resolved types, or between a resolved type and
  a string, compares the names and raises nothing. The code raises \<^verbatim>\<open>NameError\<close> on
  every comparison instead: \<^verbatim>\<open>__eq__\<close> first evaluates
  \<^verbatim>\<open>isinstance(other, BaseMimeType)\<close>, and no name \<^verbatim>\<open>BaseMimeType\<close> is bound (the
  class is called \<^verbatim>\<open>BaseMime\<close>).
\<close>

theorem eq_raises_NameError:
  "BaseMime_eq (BaseMime_init mime) (OStr s) = Inl NameError \<and>
   BaseMime_eq (BaseMime_init mime) (OMime (BaseMime_init mime')) = Inl NameError"
  by (simp add: BaseMime_eq_def load_global_def base_globals_def)

text \<open>
  C6. The claim: \<^verbatim>\<open>isDefault()\<close> returns whether the name is one of the two default
  types. The code raises \<^verbatim>\<open>NameError\<close> on every call instead: the method reads the
  bare names \<^verbatim>\<open>DEFAULT_BINARY\<close> and \<^verbatim>\<open>DEFAULT_TEXT\<close>, which are attributes of the
  class and not global names.
\<close>

theorem isDefault_raises_NameError:
  "BaseMime_isDefault (BaseMime_init mime) = Inl NameError"
  by (simp add: BaseMime_isDefault_def load_global_def base_globals_def)

text \<open>
  C8. The claim: \<^verbatim>\<open>aliases()\<close> returns \<^verbatim>\<open>None\<close> when no document is found for the
  type, and otherwise the alias types without repetition. The code raises
  \<^verbatim>\<open>AttributeError\<close> on every call instead: the first line of \<^verbatim>\<open>aliases\<close> reads
  \<^verbatim>\<open>self._aliases\<close>, an attribute that \<^verbatim>\<open>__init__\<close> does not set.
\<close>

theorem aliases_raises_AttributeError:
  "MimeType_aliases h (BaseMime_init mime) = Inl AttributeError"
  by (simp add: MimeType_aliases_def BaseMime_init_def get_attr_def)

end
